theory Spec2Isabelle
  imports Main
begin

section \<open>Python values used by \<open>wut/utils.py\<close>\<close>

text \<open>
  A Python \<open>str\<close> is a sequence of code points. It is modelled as a \<open>string\<close> in which
  every \<open>char\<close> stands for one code point below 256, so \<open>length\<close> counts what Python's
  \<open>len\<close> counts. The character classes below are those of Python 3 on that range.
  Exceptions are values of type \<open>error\<close>; a function that can raise returns
  \<open>error + 'a\<close>, with \<open>Inl\<close> for the exception.
\<close>

datatype error = IndexError | ValueError | OSError | UnicodeDecodeError

subsection \<open>Slices and indexing\<close>

definition py_slice_to :: "'a list \<Rightarrow> int \<Rightarrow> 'a list" where
  \<comment> \<open>\<open>xs[:n]\<close>: a negative bound counts from the end and is clamped at 0.\<close>
  "py_slice_to xs n =
     (if n < 0 then take (length xs - nat (- n)) xs else take (nat n) xs)"

definition py_slice_from :: "'a list \<Rightarrow> int \<Rightarrow> 'a list" where
  \<comment> \<open>\<open>xs[k:]\<close>: a negative bound counts from the end and is clamped at 0.\<close>
  "py_slice_from xs k =
     (if k < 0 then drop (length xs - nat (- k)) xs else drop (nat k) xs)"

definition py_index :: "'a list \<Rightarrow> int \<Rightarrow> error + 'a" where
  \<comment> \<open>\<open>xs[i]\<close>, where \<open>xs[-k]\<close> is the \<open>k\<close>-th element from the end\<close>
  "py_index xs i =
     (if 0 \<le> i \<and> i < int (length xs) then Inr (xs ! nat i)
      else if i < 0 \<and> - i \<le> int (length xs) then Inr (xs ! (length xs - nat (- i)))
      else Inl IndexError)"

subsection \<open>Character classes\<close>

definition is_linebreak :: "char \<Rightarrow> bool" where
  \<comment> \<open>the line boundaries of \<open>str.splitlines\<close> below 256\<close>
  "is_linebreak c =
     (c \<in> set [CHR 0x0A, CHR 0x0B, CHR 0x0C, CHR 0x0D, CHR 0x1C, CHR 0x1D, CHR 0x1E, CHR 0x85])"

definition is_space :: "char \<Rightarrow> bool" where
  \<comment> \<open>\<open>str.isspace\<close> below 256\<close>
  "is_space c =
     (c \<in> set [CHR 0x09, CHR 0x0A, CHR 0x0B, CHR 0x0C, CHR 0x0D, CHR 0x1C, CHR 0x1D,
                CHR 0x1E, CHR 0x1F, CHR 0x20, CHR 0x85, CHR 0xA0])"

definition lower_char :: "char \<Rightarrow> char" where
  \<comment> \<open>\<open>str.lower\<close> on one code point below 256: A-Z, and 0xC0-0xDE apart from 0xD7\<close>
  "lower_char c =
     (let n = (of_char c :: nat)
      in if (65 \<le> n \<and> n \<le> 90) \<or> (192 \<le> n \<and> n \<le> 222 \<and> n \<noteq> 215)
         then char_of (n + 32) else c)"

definition lower :: "string \<Rightarrow> string" where
  "lower s = map lower_char s"

subsection \<open>String methods\<close>

definition lstrip :: "string \<Rightarrow> string" where
  "lstrip s = dropWhile is_space s"

definition rstrip :: "string \<Rightarrow> string" where
  "rstrip s = rev (dropWhile is_space (rev s))"

definition strip :: "string \<Rightarrow> string" where
  "strip s = rstrip (lstrip s)"

fun splitlines_acc :: "string \<Rightarrow> string \<Rightarrow> string list" where
  \<comment> \<open>first argument: the current line so far, reversed\<close>
  "splitlines_acc cur [] = (if cur = [] then [] else [rev cur])"
| "splitlines_acc cur (c # cs) =
     (if c = CHR 0x0D \<and> cs \<noteq> [] \<and> hd cs = CHR 0x0A
        then rev cur # splitlines_acc [] (tl cs)
      else if is_linebreak c then rev cur # splitlines_acc [] cs
      else splitlines_acc (c # cur) cs)"

definition splitlines :: "string \<Rightarrow> string list" where
  \<comment> \<open>\<open>str.splitlines()\<close>: no line ends are kept, and a final line end opens no line\<close>
  "splitlines s = splitlines_acc [] s"

fun join :: "string \<Rightarrow> string list \<Rightarrow> string" where
  \<comment> \<open>\<open>sep.join(xs)\<close>\<close>
  "join sep [] = []"
| "join sep [x] = x"
| "join sep (x # y # ys) = x @ sep @ join sep (y # ys)"

fun starts_with :: "string \<Rightarrow> string \<Rightarrow> bool" where
  \<comment> \<open>\<open>starts_with sub s\<close>: \<open>s.startswith(sub)\<close>\<close>
  "starts_with [] s = True"
| "starts_with (a # as) [] = False"
| "starts_with (a # as) (c # cs) = (a = c \<and> starts_with as cs)"

fun contains :: "string \<Rightarrow> string \<Rightarrow> bool" where
  \<comment> \<open>\<open>contains sub s\<close>: \<open>sub in s\<close>\<close>
  "contains sub [] = (sub = [])"
| "contains sub (c # cs) = (starts_with sub (c # cs) \<or> contains sub cs)"

fun split_first :: "string \<Rightarrow> string \<Rightarrow> (string \<times> string) option" where
  \<comment> \<open>the text before and after the leftmost occurrence of a non-empty separator\<close>
  "split_first sep [] = None"
| "split_first sep (c # cs) =
     (if starts_with sep (c # cs) then Some ([], drop (length sep) (c # cs))
      else (case split_first sep cs of
              None \<Rightarrow> None
            | Some (a, b) \<Rightarrow> Some (c # a, b)))"

definition split1 :: "string \<Rightarrow> string \<Rightarrow> error + string list" where
  \<comment> \<open>\<open>s.split(sep, 1)\<close>: an empty separator raises ValueError\<close>
  "split1 s sep =
     (if sep = [] then Inl ValueError
      else (case split_first sep s of
              None \<Rightarrow> Inr [s]
            | Some (a, b) \<Rightarrow> Inr [a, b]))"

section \<open>Token meter\<close>

text \<open>
  \<open>tokenizer = tiktoken.get_encoding("cl100k_base")\<close> is a third-party object. It enters
  the model as a parameter with the two methods the file calls.
\<close>

record tokenizer =
  encode :: "string \<Rightarrow> nat list"
  decode :: "nat list \<Rightarrow> string"

definition count_tokens :: "tokenizer \<Rightarrow> string \<Rightarrow> nat" where
  "count_tokens tk text = length (encode tk text)"

definition truncate_tokens :: "tokenizer \<Rightarrow> string \<Rightarrow> int \<Rightarrow> bool \<Rightarrow> string" where
  "truncate_tokens tk text max_tokens reverse =
     (let tokens = encode tk text;
          tokens = (if reverse then py_slice_from tokens (- max_tokens)
                    else py_slice_to tokens max_tokens)
      in decode tk tokens)"

definition byte_tokenizer :: tokenizer where
  \<comment> \<open>a concrete lossless tokenizer, one token per character, for evaluating examples\<close>
  "byte_tokenizer = \<lparr> encode = map of_char, decode = map char_of \<rparr>"

text \<open>
  A second concrete tokenizer, for examples on whole words. It cuts a text before each
  space, as cl100k_base cuts the text \<open>hello world\<close> into \<open>hello\<close> and \<open> world\<close>, and
  knows these two pieces, under the numbers they have in cl100k_base.
\<close>

definition vocabulary :: "(string \<times> nat) list" where
  "vocabulary = [(''hello'', 15339), ('' world'', 1917)]"

fun pieces_acc :: "string \<Rightarrow> string \<Rightarrow> string list" where
  \<comment> \<open>first argument: the current piece so far, reversed\<close>
  "pieces_acc cur [] = (if cur = [] then [] else [rev cur])"
| "pieces_acc cur (c # cs) =
     (if c = CHR '' '' \<and> cur \<noteq> [] then rev cur # pieces_acc [c] cs
      else pieces_acc (c # cur) cs)"

definition word_tokenizer :: tokenizer where
  "word_tokenizer =
     \<lparr> encode = (\<lambda>text. map (\<lambda>piece. case map_of vocabulary piece of
                                         None \<Rightarrow> 0 | Some n \<Rightarrow> n)
                            (pieces_acc [] text)),
       decode = (\<lambda>tokens. concat (map (\<lambda>n. case map_of (map prod.swap vocabulary) n of
                                              None \<Rightarrow> [] | Some piece \<Rightarrow> piece)
                                      tokens)) \<rparr>"

section \<open>Shell names\<close>

definition SHELLS :: "string list" where
  "SHELLS = [''bash'', ''fish'', ''zsh'', ''csh'', ''tcsh'', ''powershell'', ''pwsh'']"

definition rfind :: "char \<Rightarrow> string \<Rightarrow> int" where
  \<comment> \<open>\<open>s.rfind(c)\<close>: the highest index of \<open>c\<close>, or -1\<close>
  "rfind c s =
     (if c \<in> set s then int (length s - 1 - length (takeWhile (\<lambda>x. x \<noteq> c) (rev s)))
      else - 1)"

function has_non_dot :: "string \<Rightarrow> nat \<Rightarrow> nat \<Rightarrow> bool" where
  \<comment> \<open>the loop of \<open>genericpath._splitext\<close> that skips leading dots of the file name:
      True when it meets a character other than a dot before \<open>dotIndex\<close>\<close>
  "has_non_dot p filenameIndex dotIndex =
     (if filenameIndex < dotIndex
      then (if p ! filenameIndex \<noteq> CHR ''.'' then True
            else has_non_dot p (filenameIndex + 1) dotIndex)
      else False)"
  by pat_completeness auto
termination
  by (relation "measure (\<lambda>(p, i, d). d - i)") auto

definition splitext :: "string \<Rightarrow> string \<times> string" where
  \<comment> \<open>\<open>os.path.splitext\<close> of the standard library, with the POSIX separator\<close>
  "splitext p =
     (let sepIndex = rfind CHR ''/'' p;
          dotIndex = rfind CHR ''.'' p
      in if dotIndex > sepIndex \<and> has_non_dot p (nat (sepIndex + 1)) (nat dotIndex)
         then (take (nat dotIndex) p, drop (nat dotIndex) p)
         else (p, []))"

definition get_shell_name :: "string option \<Rightarrow> string option" where
  "get_shell_name shell_path =
     (case shell_path of
        None \<Rightarrow> None
      | Some p \<Rightarrow>
          if p = [] then None
          else if lower (snd (splitext p)) \<in> set SHELLS then Some (lower (snd (splitext p)))
          else if lower (fst (splitext p)) \<in> set SHELLS then Some (lower (fst (splitext p)))
          else if lower p \<in> set SHELLS then Some (lower p)
          else None)"

section \<open>Pane capture\<close>

text \<open>
  The capture works on the process environment, the file system and two external
  programs. The world record holds the part of them the function touches: the
  environment, the files by path (their bytes), the name the next temporary file gets,
  how bytes decode to text in the locale's encoding (\<open>None\<close> where they do not), and
  what the two multiplexer commands do when they are run.
\<close>

datatype proc_outcome =
    Exited int string  \<comment> \<open>the exit status and the text the program produces\<close>
  | SpawnFailed        \<comment> \<open>the program cannot be started: an OSError\<close>

record world =
  env :: "string \<rightharpoonup> string"
  files :: "string \<rightharpoonup> string"
  tmp_name :: string
  text_decoding :: "string \<Rightarrow> string option"
  tmux_capture :: proc_outcome
  screen_hardcopy :: proc_outcome

definition getenv_true :: "world \<Rightarrow> string \<Rightarrow> bool" where
  \<comment> \<open>the truth value of \<open>os.getenv(name)\<close>: set and not empty\<close>
  "getenv_true w name = (case env w name of None \<Rightarrow> False | Some v \<Rightarrow> v \<noteq> [])"

definition write_file :: "string \<Rightarrow> string \<Rightarrow> world \<Rightarrow> world" where
  "write_file path content w = w\<lparr>files := (files w)(path \<mapsto> content)\<rparr>"

definition remove_file :: "string \<Rightarrow> world \<Rightarrow> world" where
  "remove_file path w = w\<lparr>files := (files w)(path := None)\<rparr>"

fun universal_newlines :: "string \<Rightarrow> string" where
  \<comment> \<open>reading in text mode: every CR LF and every other CR becomes LF\<close>
  "universal_newlines [] = []"
| "universal_newlines (c # cs) =
     (if c = CHR 0x0D \<and> cs \<noteq> [] \<and> hd cs = CHR 0x0A
        then CHR 0x0A # universal_newlines (tl cs)
      else if c = CHR 0x0D then CHR 0x0A # universal_newlines cs
      else c # universal_newlines cs)"

definition read_file :: "string \<Rightarrow> world \<Rightarrow> error + string" where
  \<comment> \<open>\<open>open(path, "r").read()\<close>\<close>
  "read_file path w =
     (case files w path of
        None \<Rightarrow> Inl OSError
      | Some content \<Rightarrow>
          (case text_decoding w content of
             None \<Rightarrow> Inl UnicodeDecodeError
           | Some decoded \<Rightarrow> Inr (universal_newlines decoded)))"

definition get_pane_output :: "world \<Rightarrow> (error + string) \<times> world" where
  "get_pane_output w =
     (let output_file = tmp_name w;
          w1 = write_file output_file [] w  \<comment> \<open>\<open>NamedTemporaryFile(delete=False)\<close>\<close>
      in if getenv_true w1 ''TMUX'' then
           (case tmux_capture w1 of
              SpawnFailed \<Rightarrow> (Inl OSError, w1)  \<comment> \<open>not a CalledProcessError: it propagates\<close>
            | Exited status out \<Rightarrow>
                \<comment> \<open>\<open>run\<close> without \<open>check\<close> ignores the status; stdout is the file\<close>
                let w2 = write_file output_file out w1
                in (case read_file output_file w2 of
                      Inl e \<Rightarrow> (Inl e, w2)  \<comment> \<open>it propagates too\<close>
                    | Inr output \<Rightarrow> (Inr output, remove_file output_file w2)))
         else if getenv_true w1 ''STY'' then
           (case screen_hardcopy w1 of
              SpawnFailed \<Rightarrow> (Inl OSError, w1)
            | Exited status out \<Rightarrow>
                let w2 = write_file output_file out w1
                in if status \<noteq> 0
                   then (Inr [], remove_file output_file w2)  \<comment> \<open>CalledProcessError, caught\<close>
                   else (case read_file output_file w2 of
                           Inl e \<Rightarrow> (Inl e, w2)
                         | Inr output \<Rightarrow> (Inr output, remove_file output_file w2)))
         else (Inr [], w1))  \<comment> \<open>the early \<open>return\<close> inside the \<open>with\<close> block\<close>"

section \<open>Segmentation\<close>

record Shell =
  path :: "string option"
  name :: "string option"
  prompt :: "string option"

record Command =
  text_c :: string    \<comment> \<open>the field \<open>text\<close>\<close>
  output_c :: string  \<comment> \<open>the field \<open>output\<close>\<close>

fun get_commands_loop ::
  "string \<Rightarrow> string list \<Rightarrow> Command list \<Rightarrow> string list \<Rightarrow> error + Command list" where
  \<comment> \<open>the \<open>for\<close> loop of \<open>get_commands\<close> over the reversed lines, with its two lists\<close>
  "get_commands_loop p [] commands buffer = Inr commands"
| "get_commands_loop p (line # rest) commands buffer =
     (if strip line = [] then get_commands_loop p rest commands buffer
      else if contains (lower p) (lower line) then
        (case split1 line p of
           Inl e \<Rightarrow> Inl e
         | Inr parts \<Rightarrow>
             (case py_index parts 1 of
                Inl e \<Rightarrow> Inl e
              | Inr part \<Rightarrow>
                  let command_text = strip part;
                      command = \<lparr> text_c = command_text,
                                  output_c = strip (join ''\<newline>'' (rev buffer)) \<rparr>
                  in get_commands_loop p rest (commands @ [command]) []))
      else get_commands_loop p rest commands (buffer @ [line]))"

definition scan_commands :: "string \<Rightarrow> string \<Rightarrow> error + Command list" where
  \<comment> \<open>the list \<open>commands\<close> when the loop of \<open>get_commands\<close> ends, newest first\<close>
  "scan_commands pane_output p = get_commands_loop p (rev (splitlines pane_output)) [] []"

definition get_commands :: "string \<Rightarrow> string \<Rightarrow> error + Command list" where
  \<comment> \<open>the second argument is \<open>shell.prompt\<close>, a string on every call\<close>
  "get_commands pane_output p =
     (case scan_commands pane_output p of
        Inl e \<Rightarrow> Inl e
      | Inr commands \<Rightarrow> Inr (py_slice_from commands 1))"

section \<open>Truncation to a token budget\<close>

fun truncate_lines_loop ::
  "tokenizer \<Rightarrow> int \<Rightarrow> int \<Rightarrow> string list \<Rightarrow> string list \<Rightarrow> string list" where
  \<comment> \<open>the inner \<open>for\<close> loop of \<open>truncate_commands\<close>, with its list \<open>output\<close>\<close>
  "truncate_lines_loop tk max_tokens num_tokens [] output = output"
| "truncate_lines_loop tk max_tokens num_tokens (line # rest) output =
     (let line_tokens = int (count_tokens tk line)
      in if line_tokens + num_tokens > max_tokens then output
         else truncate_lines_loop tk max_tokens num_tokens rest (output @ [line]))"

fun truncate_commands_loop ::
  "tokenizer \<Rightarrow> int \<Rightarrow> int \<Rightarrow> Command list \<Rightarrow> Command list \<Rightarrow> Command list" where
  \<comment> \<open>the outer \<open>for\<close> loop, with \<open>num_tokens\<close> (never assigned in the loop) and
      \<open>truncated_commands\<close>\<close>
  "truncate_commands_loop tk max_tokens num_tokens [] truncated_commands = truncated_commands"
| "truncate_commands_loop tk max_tokens num_tokens (command # rest) truncated_commands =
     (let command_tokens = int (count_tokens tk (text_c command))
      in if command_tokens + num_tokens > max_tokens then truncated_commands
         else
           let output = truncate_lines_loop tk max_tokens num_tokens
                          (rev (splitlines (output_c command))) [];
               output = join ''\<newline>'' (rev output);
               command = \<lparr> text_c = text_c command, output_c = output \<rparr>
           in truncate_commands_loop tk max_tokens num_tokens rest
                (truncated_commands @ [command]))"

definition truncate_commands :: "tokenizer \<Rightarrow> Command list \<Rightarrow> int \<Rightarrow> Command list" where
  "truncate_commands tk commands max_tokens =
     truncate_commands_loop tk max_tokens 0 commands []"

fun truncate_pane_output_loop :: "string list \<Rightarrow> bool \<Rightarrow> string list \<Rightarrow> string list" where
  \<comment> \<open>the \<open>for\<close> loop of \<open>truncate_pane_output\<close>, with \<open>hit_non_empty_line\<close> and \<open>lines\<close>\<close>
  "truncate_pane_output_loop [] hit_non_empty_line lines = lines"
| "truncate_pane_output_loop (line # rest) hit_non_empty_line lines =
     (let hit_non_empty_line =
            (if line \<noteq> [] \<and> strip line \<noteq> [] then True else hit_non_empty_line)
      in if hit_non_empty_line
         then truncate_pane_output_loop rest hit_non_empty_line (lines @ [line])
         else truncate_pane_output_loop rest hit_non_empty_line lines)"

definition flat_text :: "string \<Rightarrow> string" where
  \<comment> \<open>the value of \<open>output\<close> in \<open>truncate_pane_output\<close> before the token cut\<close>
  "flat_text output =
     (let lines = truncate_pane_output_loop (rev (splitlines output)) False [];
          lines = py_slice_from lines 1
      in join ''\<newline>'' (rev lines))"

definition truncate_pane_output :: "tokenizer \<Rightarrow> string \<Rightarrow> int \<Rightarrow> string" where
  "truncate_pane_output tk output max_tokens =
     strip (truncate_tokens tk (flat_text output) max_tokens True)"

section \<open>Context assembly\<close>

definition command_to_string :: "Command \<Rightarrow> string option \<Rightarrow> string" where
  "command_to_string command shell_prompt =
     (let shell_prompt = (case shell_prompt of
                            None \<Rightarrow> ''$''
                          | Some p \<Rightarrow> if p = [] then ''$'' else p);
          command_str = shell_prompt @ '' '' @ text_c command
      in command_str @
           (if strip (output_c command) \<noteq> [] then ''\<newline>'' @ output_c command else []))"

definition get_terminal_context ::
  "tokenizer \<Rightarrow> world \<Rightarrow> Shell \<Rightarrow> int \<Rightarrow> int \<Rightarrow> (error + string) \<times> world" where
  "get_terminal_context tk w shell max_tokens max_commands =
     (case get_pane_output w of
        (Inl e, w') \<Rightarrow> (Inl e, w')
      | (Inr pane_output, w') \<Rightarrow>
          if pane_output = []
          then (Inr ''<terminal_history>No terminal output found.</terminal_history>'', w')
          else
            let flat = (Inr (''<terminal_history>\<newline>''
                             @ truncate_pane_output tk pane_output max_tokens
                             @ ''\<newline></terminal_history>''), w')
            in (case prompt shell of
                  None \<Rightarrow> flat
                | Some p \<Rightarrow>
                    if p = [] then flat  \<comment> \<open>\<open>not shell.prompt\<close>: None or empty\<close>
                    else
                      (case get_commands pane_output p of
                         Inl e \<Rightarrow> (Inl e, w')
                       | Inr commands \<Rightarrow>
                           let commands = truncate_commands tk
                                            (py_slice_to commands max_commands) max_tokens;
                               commands = rev commands;
                               previous_commands = py_slice_to commands (- 1)
                           in (case py_index commands (- 1) of
                                 Inl e \<Rightarrow> (Inl e, w')
                               | Inr last_command \<Rightarrow>
                                   (Inr (''<terminal_history>\<newline>''
                                         @ ''<previous_commands>\<newline>''
                                         @ join ''\<newline>''
                                             (map (\<lambda>c. command_to_string c (prompt shell))
                                                previous_commands)
                                         @ ''\<newline></previous_commands>\<newline>''
                                         @ ''\<newline><last_command>\<newline>''
                                         @ command_to_string last_command (prompt shell)
                                         @ ''\<newline></last_command>''
                                         @ ''\<newline></terminal_history>''), w')))))"

section \<open>The truncation and the flat mode in the spec's words\<close>

text \<open>
  The definitions of this section are not translations of the source. They say what the
  spec says the loops compute, and the theorems below compare them with the loops.
\<close>

definition fits :: "tokenizer \<Rightarrow> int \<Rightarrow> string \<Rightarrow> bool" where
  \<comment> \<open>the token count of \<open>s\<close> alone does not exceed the budget\<close>
  "fits tk max_tokens s = (int (count_tokens tk s) \<le> max_tokens)"

definition rebuild_output :: "tokenizer \<Rightarrow> int \<Rightarrow> Command \<Rightarrow> Command" where
  \<comment> \<open>the output lines, scanned from the last one, kept while each line fits\<close>
  "rebuild_output tk max_tokens command =
     \<lparr> text_c = text_c command,
       output_c = join ''\<newline>''
                    (rev (takeWhile (fits tk max_tokens)
                            (rev (splitlines (output_c command))))) \<rparr>"

definition is_blank :: "string \<Rightarrow> bool" where
  "is_blank line = (strip line = [])"

definition plain_text :: "string \<Rightarrow> bool" where
  \<comment> \<open>no line boundary other than the newline, and no newline at the end\<close>
  "plain_text s =
     ((\<forall>c \<in> set s. is_linebreak c \<longrightarrow> c = CHR 0x0A) \<and> (s = [] \<or> last s \<noteq> CHR 0x0A))"

definition is_prompt_line :: "string \<Rightarrow> string \<Rightarrow> bool" where
  \<comment> \<open>a line that is not blank and contains the prompt, letter case aside\<close>
  "is_prompt_line p line = (strip line \<noteq> [] \<and> contains (lower p) (lower line))"

section \<open>Two concrete worlds\<close>

definition bare_world :: world where
  \<comment> \<open>no multiplexer: neither \<open>TMUX\<close> nor \<open>STY\<close> is set, and no file exists yet\<close>
  "bare_world =
     \<lparr> env = Map.empty, files = Map.empty, tmp_name = ''/tmp/tmpab12cd'',
       text_decoding = Some, tmux_capture = SpawnFailed, screen_hardcopy = SpawnFailed \<rparr>"

definition tmux_world :: "string \<Rightarrow> world" where
  \<comment> \<open>inside a tmux session whose pane holds the given text\<close>
  "tmux_world pane =
     \<lparr> env = [''TMUX'' \<mapsto> ''/tmp/tmux-0/default,1,0''], files = Map.empty,
       tmp_name = ''/tmp/tmpab12cd'', text_decoding = Some,
       tmux_capture = Exited 0 pane, screen_hardcopy = SpawnFailed \<rparr>"

section \<open>Properties of the token meter\<close>

lemma byte_tokenizer_lossless: "decode byte_tokenizer (encode byte_tokenizer s) = s"
  by (simp add: byte_tokenizer_def comp_def)

lemma byte_tokenizer_count: "count_tokens byte_tokenizer s = length s"
  by (simp add: byte_tokenizer_def count_tokens_def)

lemma word_tokenizer_hello_world:
  "encode word_tokenizer ''hello world'' = [15339, 1917]"
  "decode word_tokenizer [15339] = ''hello''"
  "decode word_tokenizer [1917] = '' world''"
  "decode word_tokenizer [] = []"
  by (simp_all add: word_tokenizer_def vocabulary_def)

text \<open>
  C3, as the spec states it: \<open>maxTokens <= 0\<close> yields the empty string, for both values
  of the flag. A negative \<open>max_tokens\<close> is a bound counted from the other end of the
  token list: with \<open>max_tokens = -1\<close> the two-token text \<open>hello world\<close> loses one token,
  not both, and the result is \<open>hello\<close> without \<open>reverse\<close> and \<open> world\<close> with it.
\<close>

theorem truncate_tokens_nonpositive_counterexample:
  "(- 1 :: int) \<le> 0
   \<and> truncate_tokens word_tokenizer ''hello world'' (- 1) False = ''hello''
   \<and> truncate_tokens word_tokenizer ''hello world'' (- 1) True = '' world''
   \<and> ''hello'' \<noteq> [] \<and> '' world'' \<noteq> []"
  by (simp add: truncate_tokens_def py_slice_to_def py_slice_from_def
        word_tokenizer_hello_world)

text \<open>
  C3, amended: for a tokenizer that decodes the empty token list to the empty string and
  \<open>max_tokens \<le> 0\<close>, the result is what Python's slices give. With \<open>max_tokens = 0\<close> and
  without \<open>reverse\<close> it is the empty string. With \<open>max_tokens < 0\<close> it is the decoding of
  the tokens without their last \<open>- max_tokens\<close> (without \<open>reverse\<close>) or without their
  first \<open>- max_tokens\<close> (with \<open>reverse\<close>), and so the empty string, for both flags, when
  \<open>- max_tokens\<close> is at least the token count of the text.
\<close>

theorem truncate_tokens_nonpositive:
  "max_tokens \<le> 0 \<Longrightarrow> decode tk [] = [] \<Longrightarrow>
     (max_tokens = 0 \<longrightarrow> truncate_tokens tk text max_tokens False = [])
     \<and> (max_tokens < 0 \<longrightarrow>
          truncate_tokens tk text max_tokens False =
            decode tk (take (count_tokens tk text - nat (- max_tokens)) (encode tk text))
          \<and> truncate_tokens tk text max_tokens True =
            decode tk (drop (nat (- max_tokens)) (encode tk text)))
     \<and> (max_tokens < 0 \<and> count_tokens tk text \<le> nat (- max_tokens) \<longrightarrow>
          truncate_tokens tk text max_tokens False = []
          \<and> truncate_tokens tk text max_tokens True = [])"
  by (simp add: truncate_tokens_def py_slice_from_def py_slice_to_def count_tokens_def Let_def)

theorem truncate_tokens_nonpositive_witness:
  "(- 1 :: int) \<le> 0 \<and> (- 2 :: int) \<le> 0 \<and> (0 :: int) \<le> 0
   \<and> decode word_tokenizer [] = []
   \<and> truncate_tokens word_tokenizer ''hello world'' (- 1) False = ''hello''
   \<and> truncate_tokens word_tokenizer ''hello world'' (- 1) True = '' world''
   \<and> count_tokens word_tokenizer ''hello world'' \<le> nat (- (- 2))
   \<and> truncate_tokens word_tokenizer ''hello world'' (- 2) False = []
   \<and> truncate_tokens word_tokenizer ''hello world'' (- 2) True = []
   \<and> truncate_tokens word_tokenizer ''hello world'' 0 False = []"
  using truncate_tokens_nonpositive [of "- 1" word_tokenizer "''hello world''"]
        truncate_tokens_nonpositive [of "- 2" word_tokenizer "''hello world''"]
        truncate_tokens_nonpositive [of 0 word_tokenizer "''hello world''"]
  by (simp add: count_tokens_def word_tokenizer_hello_world)

text \<open>
  C5: when \<open>n\<close> is at least the token count of \<open>t\<close>, both slices are the whole token
  list, so \<open>truncate_tokens\<close> returns the decoding of the encoding of \<open>t\<close>: \<open>t\<close> itself
  for a tokenizer that is lossless on \<open>t\<close>.
\<close>

theorem truncate_tokens_roundtrip:
  "decode tk (encode tk t) = t \<Longrightarrow> int (count_tokens tk t) \<le> n \<Longrightarrow>
     truncate_tokens tk t n reverse = t"
  by (auto simp add: truncate_tokens_def py_slice_from_def py_slice_to_def count_tokens_def
        Let_def)

theorem truncate_tokens_roundtrip_witness:
  "decode byte_tokenizer (encode byte_tokenizer ''ls -la'') = ''ls -la''
   \<and> int (count_tokens byte_tokenizer ''ls -la'') \<le> 6
   \<and> truncate_tokens byte_tokenizer ''ls -la'' 6 True = ''ls -la''
   \<and> truncate_tokens byte_tokenizer ''ls -la'' 6 False = ''ls -la''"
  using truncate_tokens_roundtrip [of byte_tokenizer "''ls -la''" 6 True]
        truncate_tokens_roundtrip [of byte_tokenizer "''ls -la''" 6 False]
  by (simp add: byte_tokenizer_lossless byte_tokenizer_count)

section \<open>Properties of the truncation of commands\<close>

lemma takeWhile_all: "\<forall>x \<in> set xs. P x \<Longrightarrow> takeWhile P xs = xs"
  by (simp add: takeWhile_eq_all_conv)

lemma truncate_lines_loop_takeWhile:
  "truncate_lines_loop tk m 0 ls out = out @ takeWhile (fits tk m) ls"
  by (induction ls arbitrary: out) (simp_all add: fits_def Let_def)

lemma truncate_commands_loop_takeWhile:
  "truncate_commands_loop tk m 0 cs acc =
     acc @ map (rebuild_output tk m) (takeWhile (\<lambda>c. fits tk m (text_c c)) cs)"
  by (induction cs arbitrary: acc)
     (simp_all add: fits_def Let_def rebuild_output_def truncate_lines_loop_takeWhile)

text \<open>
  C6: \<open>num_tokens\<close> stays 0, so every command text and every output line is compared
  with \<open>max_tokens\<close> on its own. The result is the commands before the first one whose
  text does not fit, each with its output rebuilt line by line; that command and all
  later ones are dropped.
\<close>

theorem truncate_commands_per_item:
  "truncate_commands tk commands max_tokens =
     map (rebuild_output tk max_tokens)
       (takeWhile (\<lambda>c. fits tk max_tokens (text_c c)) commands)
   \<and> ((\<forall>c \<in> set newer. fits tk max_tokens (text_c c)) \<and> \<not> fits tk max_tokens (text_c c0) \<longrightarrow>
        truncate_commands tk (newer @ c0 # older) max_tokens =
          map (rebuild_output tk max_tokens) newer)"
  by (simp add: truncate_commands_def truncate_commands_loop_takeWhile)

theorem truncate_commands_per_item_witness:
  "fits byte_tokenizer 4 (text_c \<lparr>text_c = ''ls'', output_c = ''a\<newline>bcdef\<newline>g''\<rparr>)
   \<and> \<not> fits byte_tokenizer 4 (text_c \<lparr>text_c = ''echo hello'', output_c = ''hello''\<rparr>)
   \<and> truncate_commands byte_tokenizer
        ([\<lparr>text_c = ''ls'', output_c = ''a\<newline>bcdef\<newline>g''\<rparr>]
         @ \<lparr>text_c = ''echo hello'', output_c = ''hello''\<rparr>
         # [\<lparr>text_c = ''cd'', output_c = []\<rparr>]) 4
       = [\<lparr>text_c = ''ls'', output_c = ''g''\<rparr>]"
proof -
  have fit: "\<forall>c \<in> set [\<lparr>text_c = ''ls'', output_c = ''a\<newline>bcdef\<newline>g''\<rparr>].
               fits byte_tokenizer 4 (text_c c)"
    by (simp add: fits_def byte_tokenizer_count)
  have unfit: "\<not> fits byte_tokenizer 4 (text_c \<lparr>text_c = ''echo hello'', output_c = ''hello''\<rparr>)"
    by (simp add: fits_def byte_tokenizer_count)
  have rebuilt: "map (rebuild_output byte_tokenizer 4)
                   [\<lparr>text_c = ''ls'', output_c = ''a\<newline>bcdef\<newline>g''\<rparr>]
                 = [\<lparr>text_c = ''ls'', output_c = ''g''\<rparr>]"
    by (simp add: rebuild_output_def fits_def byte_tokenizer_count splitlines_def
          is_linebreak_def)
  show ?thesis
    using truncate_commands_per_item
            [of byte_tokenizer _ 4 "[\<lparr>text_c = ''ls'', output_c = ''a\<newline>bcdef\<newline>g''\<rparr>]"
                "\<lparr>text_c = ''echo hello'', output_c = ''hello''\<rparr>"
                "[\<lparr>text_c = ''cd'', output_c = []\<rparr>]"]
          fit unfit rebuilt
    by simp
qed

lemma rebuild_output_id:
  assumes "\<forall>l \<in> set (splitlines (output_c c)). fits tk m l"
    and "join ''\<newline>'' (splitlines (output_c c)) = output_c c"
  shows "rebuild_output tk m c = c"
proof -
  have tw: "takeWhile (fits tk m) (rev (splitlines (output_c c))) = rev (splitlines (output_c c))"
    using assms(1) by (intro takeWhile_all) simp
  have "rebuild_output tk m c = \<lparr> text_c = text_c c, output_c = output_c c \<rparr>"
    unfolding rebuild_output_def tw rev_rev_ident assms(2) by (rule refl)
  then show ?thesis
    by simp
qed

lemma splitlines_acc_Nil_iff: "splitlines_acc cur s = [] \<longleftrightarrow> cur = [] \<and> s = []"
  by (induction s arbitrary: cur) auto

lemma join_Cons: "xs \<noteq> [] \<Longrightarrow> join sep (x # xs) = x @ sep @ join sep xs"
  by (cases xs) simp_all

lemma is_linebreak_CR: "is_linebreak (CHR 0x0D)"
  by (simp add: is_linebreak_def)

lemma join_splitlines_acc:
  "\<forall>c \<in> set s. is_linebreak c \<longrightarrow> c = CHR 0x0A \<Longrightarrow> s = [] \<or> last s \<noteq> CHR 0x0A \<Longrightarrow>
     join ''\<newline>'' (splitlines_acc cur s) = rev cur @ s"
proof (induction s arbitrary: cur)
  case Nil
  then show ?case by simp
next
  case (Cons c cs)
  have notCR: "c \<noteq> CHR 0x0D"
    using Cons.prems(1) is_linebreak_CR by auto
  have tail: "\<forall>c \<in> set cs. is_linebreak c \<longrightarrow> c = CHR 0x0A" "cs = [] \<or> last cs \<noteq> CHR 0x0A"
    using Cons.prems by (auto split: if_splits)
  show ?case
  proof (cases "is_linebreak c")
    case True
    then have c: "c = CHR 0x0A" using Cons.prems(1) by simp
    with Cons.prems(2) have "cs \<noteq> []" by auto
    then have "splitlines_acc [] cs \<noteq> []" by (simp add: splitlines_acc_Nil_iff)
    then show ?thesis
      using True notCR c Cons.IH [OF tail, of "[]"] by (simp add: join_Cons)
  next
    case False
    then show ?thesis
      using notCR Cons.IH [OF tail, of "c # cur"] by simp
  qed
qed

text \<open>
  A text whose only line boundaries are newlines and that does not end in one is the
  newline-join of its lines.
\<close>

lemma join_splitlines_plain: "plain_text s \<Longrightarrow> join ''\<newline>'' (splitlines s) = s"
  using join_splitlines_acc [of s "[]"] by (simp add: plain_text_def splitlines_def)

text \<open>
  C10: when every command's output is the newline-join of its lines (which rules out a
  final newline, a carriage return and every other line boundary of \<open>splitlines\<close>), and
  every command text and every output line has at most \<open>max_tokens\<close> tokens, then
  \<open>truncate_commands\<close> returns the list as it is.
\<close>

theorem truncate_commands_identity:
  assumes "\<forall>c \<in> set commands.
             int (count_tokens tk (text_c c)) \<le> max_tokens
             \<and> (\<forall>l \<in> set (splitlines (output_c c)). int (count_tokens tk l) \<le> max_tokens)
             \<and> output_c c = join ''\<newline>'' (splitlines (output_c c))"
  shows "truncate_commands tk commands max_tokens = commands"
proof -
  have all: "takeWhile (\<lambda>c. fits tk max_tokens (text_c c)) commands = commands"
    using assms by (intro takeWhile_all) (simp add: fits_def)
  have "map (rebuild_output tk max_tokens) commands = commands"
  proof (rule map_idI)
    fix c assume "c \<in> set commands"
    with assms show "rebuild_output tk max_tokens c = c"
      by (intro rebuild_output_id) (auto simp: fits_def)
  qed
  then show ?thesis
    by (simp only: truncate_commands_def truncate_commands_loop_takeWhile all append_Nil)
qed

theorem truncate_commands_identity_witness:
  "int (count_tokens byte_tokenizer ''ls'') \<le> 3
   \<and> int (count_tokens byte_tokenizer ''pwd'') \<le> 3
   \<and> splitlines ''a\<newline>\<newline>bc'' = [''a'', [], ''bc'']
   \<and> int (count_tokens byte_tokenizer ''bc'') \<le> 3
   \<and> ''a\<newline>\<newline>bc'' = join ''\<newline>'' (splitlines ''a\<newline>\<newline>bc'')
   \<and> truncate_commands byte_tokenizer
        [\<lparr>text_c = ''ls'', output_c = ''a\<newline>\<newline>bc''\<rparr>, \<lparr>text_c = ''pwd'', output_c = []\<rparr>] 3
       = [\<lparr>text_c = ''ls'', output_c = ''a\<newline>\<newline>bc''\<rparr>, \<lparr>text_c = ''pwd'', output_c = []\<rparr>]"
proof -
  have h: "\<forall>c \<in> set [\<lparr>text_c = ''ls'', output_c = ''a\<newline>\<newline>bc''\<rparr>, \<lparr>text_c = ''pwd'', output_c = []\<rparr>].
       int (count_tokens byte_tokenizer (text_c c)) \<le> 3
       \<and> (\<forall>l \<in> set (splitlines (output_c c)). int (count_tokens byte_tokenizer l) \<le> 3)
       \<and> output_c c = join ''\<newline>'' (splitlines (output_c c))"
    by (simp add: byte_tokenizer_count splitlines_def is_linebreak_def)
  have sl: "splitlines ''a\<newline>\<newline>bc'' = [''a'', [], ''bc'']"
    by (simp add: splitlines_def is_linebreak_def)
  show ?thesis
    using truncate_commands_identity [OF h] sl
    by (simp add: byte_tokenizer_count)
qed

section \<open>Properties of the flat mode\<close>

lemma strip_Nil: "strip [] = []"
  by (simp add: strip_def lstrip_def rstrip_def)

lemma truncate_pane_output_loop_dropWhile:
  "truncate_pane_output_loop ls hit acc =
     acc @ (if hit then ls else dropWhile is_blank ls)"
  by (induction ls arbitrary: hit acc) (auto simp add: is_blank_def Let_def strip_Nil)

lemma flat_text_eq:
  "flat_text output =
     join ''\<newline>'' (rev (drop 1 (dropWhile is_blank (rev (splitlines output)))))"
  by (simp add: flat_text_def truncate_pane_output_loop_dropWhile py_slice_from_def Let_def)

lemma flat_text_example: "flat_text ''line1\<newline>line2\<newline>\<newline>'' = ''line1''"
  by code_simp

lemma strip_line1: "strip ''line1'' = ''line1''"
  by code_simp

lemma truncate_tokens_whole:
  "int (count_tokens tk t) \<le> n \<Longrightarrow> truncate_tokens tk t n reverse = decode tk (encode tk t)"
  by (auto simp add: truncate_tokens_def py_slice_from_def py_slice_to_def count_tokens_def
        Let_def)

text \<open>
  C9: the loop of the flat mode scans the lines from the last one, skips the blank lines
  it meets before the first line that is not blank, and keeps every line from there on;
  the first kept line is dropped, the rest is put back in forward order and joined with
  newlines, then cut to the last \<open>max_tokens\<close> tokens and stripped. For the pane text
  \<open>line1\nline2\n\n\<close> and a budget that holds \<open>line1\<close>, the result is \<open>line1\<close>, for a
  tokenizer that is lossless on that word.
\<close>

theorem truncate_pane_output_flat:
  "truncate_pane_output tk output max_tokens =
     strip (truncate_tokens tk
              (join ''\<newline>'' (rev (drop 1 (dropWhile is_blank (rev (splitlines output))))))
              max_tokens True)
   \<and> (decode tk (encode tk ''line1'') = ''line1''
        \<and> int (count_tokens tk ''line1'') \<le> max_tokens \<longrightarrow>
      truncate_pane_output tk ''line1\<newline>line2\<newline>\<newline>'' max_tokens = ''line1'')"
proof (intro conjI impI)
  show "truncate_pane_output tk output max_tokens =
     strip (truncate_tokens tk
              (join ''\<newline>'' (rev (drop 1 (dropWhile is_blank (rev (splitlines output))))))
              max_tokens True)"
    by (simp only: truncate_pane_output_def flat_text_eq)
next
  assume h: "decode tk (encode tk ''line1'') = ''line1''
        \<and> int (count_tokens tk ''line1'') \<le> max_tokens"
  then have "truncate_tokens tk ''line1'' max_tokens True = ''line1''"
    by (simp add: truncate_tokens_whole)
  then show "truncate_pane_output tk ''line1\<newline>line2\<newline>\<newline>'' max_tokens = ''line1''"
    by (simp only: truncate_pane_output_def flat_text_example strip_line1)
qed

theorem truncate_pane_output_flat_witness:
  "decode byte_tokenizer (encode byte_tokenizer ''line1'') = ''line1''
   \<and> int (count_tokens byte_tokenizer ''line1'') \<le> 4096
   \<and> truncate_pane_output byte_tokenizer ''line1\<newline>line2\<newline>\<newline>'' 4096 = ''line1''"
  using truncate_pane_output_flat [of byte_tokenizer "[]" 4096]
  by (simp add: byte_tokenizer_lossless byte_tokenizer_count)

section \<open>Properties of the shell-name normalization\<close>

lemma rfind_nth:
  assumes "c \<in> set s"
  shows "nat (rfind c s) < length s \<and> s ! nat (rfind c s) = c"
proof -
  let ?k = "length (takeWhile (\<lambda>x. x \<noteq> c) (rev s))"
  have "takeWhile (\<lambda>x. x \<noteq> c) (rev s) \<noteq> rev s"
    using assms by (simp add: takeWhile_eq_all_conv)
  then have "?k \<noteq> length (rev s)"
    by (metis takeWhile_eq_take take_all order_refl)
  then have k: "?k < length (rev s)"
    using length_takeWhile_le [of "\<lambda>x. x \<noteq> c" "rev s"] by simp
  then have "\<not> (rev s ! ?k \<noteq> c)"
    by (rule nth_length_takeWhile)
  moreover have "rev s ! ?k = s ! (length s - Suc ?k)"
    using k by (simp add: rev_nth)
  ultimately have "s ! (length s - 1 - ?k) = c"
    by simp
  moreover have "length s - 1 - ?k < length s"
    using k by simp
  ultimately show ?thesis
    using assms by (simp add: rfind_def)
qed

lemma rfind_absent: "c \<notin> set s \<Longrightarrow> rfind c s = - 1"
  by (simp add: rfind_def)

lemma rfind_ge: "- 1 \<le> rfind c s"
  by (simp add: rfind_def)

lemma splitext_extension: "snd (splitext p) = [] \<or> hd (snd (splitext p)) = CHR ''.''"
proof (cases "CHR ''.'' \<in> set p")
  case False
  then have "rfind CHR ''.'' p = - 1" by (rule rfind_absent)
  then show ?thesis
    using rfind_ge [of "CHR ''/''" p] by (simp add: splitext_def Let_def)
next
  case True
  then have "nat (rfind CHR ''.'' p) < length p" and "p ! nat (rfind CHR ''.'' p) = CHR ''.''"
    using rfind_nth [of "CHR ''.''" p] by simp_all
  then have "hd (drop (nat (rfind CHR ''.'' p)) p) = CHR ''.''"
    by (simp add: hd_drop_conv_nth)
  then show ?thesis
    by (simp add: splitext_def Let_def)
qed

lemma lower_char_dot: "lower_char CHR ''.'' = CHR ''.''"
  by code_simp

lemma SHELLS_no_dot: "s \<in> set SHELLS \<Longrightarrow> s \<noteq> [] \<and> hd s \<noteq> CHR ''.''"
  by (auto simp add: SHELLS_def)

lemma extension_never_shell: "lower (snd (splitext p)) \<notin> set SHELLS"
proof
  assume a: "lower (snd (splitext p)) \<in> set SHELLS"
  then have ne: "lower (snd (splitext p)) \<noteq> []" and hd: "hd (lower (snd (splitext p))) \<noteq> CHR ''.''"
    using SHELLS_no_dot by blast+
  from ne have "snd (splitext p) \<noteq> []" by (simp add: lower_def)
  then have "hd (snd (splitext p)) = CHR ''.''"
    using splitext_extension [of p] by simp
  then have "hd (lower (snd (splitext p))) = CHR ''.''"
    using \<open>snd (splitext p) \<noteq> []\<close> by (simp add: lower_def hd_map lower_char_dot)
  with hd show False by simp
qed

text \<open>
  C4: the spec has a candidate with a supported shell name as its file extension, such
  as \<open>prompt.zsh\<close>, and a full path with a supported base name, such as \<open>/bin/zsh\<close>,
  normalized to that shell name. The code returns \<open>None\<close> for both: the extension that
  \<open>splitext\<close> returns starts with a dot and the stem keeps the directory. The bare name
  \<open>zsh\<close> is recognized.
\<close>

theorem get_shell_name_examples:
  "get_shell_name (Some ''prompt.zsh'') = None
   \<and> get_shell_name (Some ''/bin/zsh'') = None
   \<and> get_shell_name (Some ''zsh'') = Some ''zsh''"
  by code_simp

text \<open>
  The extension check is dead code: for every candidate, \<open>get_shell_name\<close> is decided
  by the stem check and the raw check alone.
\<close>

lemma get_shell_name_without_extension:
  "get_shell_name (Some p) =
     (if p = [] then None
      else if lower (fst (splitext p)) \<in> set SHELLS then Some (lower (fst (splitext p)))
      else if lower p \<in> set SHELLS then Some (lower p)
      else None)"
  by (simp add: get_shell_name_def extension_never_shell)

section \<open>Properties of the pane capture\<close>

lemma get_pane_output_cleanup:
  assumes "getenv_true w ''TMUX'' \<or> getenv_true w ''STY''"
    and "fst (get_pane_output w) = Inr output"
  shows "files (snd (get_pane_output w)) (tmp_name w) = None"
  using assms
  by (auto simp add: get_pane_output_def getenv_true_def write_file_def remove_file_def
        read_file_def Let_def split: proc_outcome.splits if_splits option.splits)

text \<open>
  C2: the spec has the temporary file removed on every exit path. With no multiplexer
  the function returns the empty string from inside the \<open>with\<close> block, before
  \<open>os.remove\<close> is reached: the file that was created is still there after the call.
\<close>

theorem get_pane_output_leaves_file:
  "fst (get_pane_output bare_world) = Inr []
   \<and> files bare_world (tmp_name bare_world) = None
   \<and> files (snd (get_pane_output bare_world)) (tmp_name bare_world) = Some []"
  by (simp add: get_pane_output_def bare_world_def getenv_true_def write_file_def Let_def)

section \<open>Properties of the segmentation\<close>

text \<open>
  C1: the spec has the line \<open>MyPrompt> ls -la\<close> with the prompt \<open>myprompt>\<close> yield the
  command text \<open>ls -la\<close>. The code finds the prompt in the line with both in lower case,
  then splits the line on the prompt as it is written: the split has one part, and
  \<open>[1]\<close> raises IndexError. With the prompt in the line's own case the command is found.
\<close>

theorem get_commands_case_mismatch:
  "is_prompt_line ''myprompt>'' ''MyPrompt> ls -la''
   \<and> scan_commands ''MyPrompt> ls -la'' ''myprompt>'' = Inl IndexError
   \<and> get_commands ''MyPrompt> ls -la\<newline>out\<newline>MyPrompt> wut'' ''myprompt>'' = Inl IndexError
   \<and> get_commands ''MyPrompt> ls -la\<newline>out\<newline>MyPrompt> wut'' ''MyPrompt>''
       = Inr [\<lparr>text_c = ''ls -la'', output_c = ''out''\<rparr>]"
  by code_simp

lemma get_commands_loop_output_lines:
  "\<forall>x \<in> set xs. \<not> is_prompt_line p x \<Longrightarrow>
     get_commands_loop p (xs @ rest) commands buffer =
       get_commands_loop p rest commands (buffer @ filter (\<lambda>x. \<not> is_blank x) xs)"
  by (induction xs arbitrary: buffer) (auto simp add: is_prompt_line_def is_blank_def)

lemma get_commands_loop_prefix:
  "get_commands_loop p ls commands buffer =
     (case get_commands_loop p ls [] buffer of
        Inl e \<Rightarrow> Inl e
      | Inr r \<Rightarrow> Inr (commands @ r))"
proof (induction ls arbitrary: commands buffer)
  case Nil
  then show ?case by simp
next
  case (Cons line rest)
  show ?case
  proof (cases "strip line = []")
    case True
    then show ?thesis using Cons.IH [of commands buffer] by simp
  next
    case nonblank: False
    show ?thesis
    proof (cases "contains (lower p) (lower line)")
      case False
      then show ?thesis using nonblank Cons.IH [of commands "buffer @ [line]"] by simp
    next
      case True
      show ?thesis
      proof (cases "split1 line p")
        case (Inl e)
        then show ?thesis using nonblank True by simp
      next
        case (Inr parts)
        show ?thesis
        proof (cases "py_index parts 1")
          case (Inl e)
          then show ?thesis using nonblank True Inr by simp
        next
          case part: (Inr part)
          let ?c = "\<lparr> text_c = strip part, output_c = strip (join ''\<newline>'' (rev buffer)) \<rparr>"
          have l: "get_commands_loop p (line # rest) commands buffer =
                   get_commands_loop p rest (commands @ [?c]) []"
            using nonblank True Inr part by (simp add: Let_def)
          have r: "get_commands_loop p (line # rest) [] buffer =
                   get_commands_loop p rest [?c] []"
            using nonblank True Inr part by (simp add: Let_def)
          show ?thesis
            unfolding l r
            using Cons.IH [of "commands @ [?c]" "[]"] Cons.IH [of "[?c]" "[]"]
            by (simp split: sum.splits)
        qed
      qed
    qed
  qed
qed

text \<open>
  C8: when \<open>get_commands\<close> returns, the record built from the last prompt line of the
  pane (its text after the prompt, its output the lines below it) is the first element
  of the scan and is not part of the result: the result is the rest of the scan, which
  is the scan of the lines above that prompt line.
\<close>

theorem get_commands_excludes_last_prompt:
  assumes lines: "splitlines pane_output = upper_lines @ l # lower_lines"
    and l: "is_prompt_line p l"
    and low: "\<forall>x \<in> set lower_lines. \<not> is_prompt_line p x"
    and ret: "get_commands pane_output p = Inr result"
  shows "\<exists>before after.
           split_first p l = Some (before, after)
           \<and> scan_commands pane_output p =
               Inr (\<lparr> text_c = strip after,
                      output_c = strip (join ''\<newline>'' (filter (\<lambda>x. \<not> is_blank x) lower_lines)) \<rparr>
                    # result)
           \<and> get_commands_loop p (rev upper_lines) [] [] = Inr result"
proof -
  let ?buf = "filter (\<lambda>x. \<not> is_blank x) (rev lower_lines)"
  have scan: "scan_commands pane_output p = get_commands_loop p (l # rev upper_lines) [] ?buf"
    using get_commands_loop_output_lines [of "rev lower_lines" p "l # rev upper_lines" "[]" "[]"] low
    by (simp add: scan_commands_def lines)
  obtain cs where cs: "scan_commands pane_output p = Inr cs"
    using ret by (cases "scan_commands pane_output p") (simp_all add: get_commands_def)
  have res: "result = drop 1 cs"
    using ret cs by (simp add: get_commands_def py_slice_from_def)
  have nb: "strip l \<noteq> []" and ct: "contains (lower p) (lower l)"
    using l by (simp_all add: is_prompt_line_def)
  obtain parts where parts: "split1 l p = Inr parts"
    using cs scan nb ct by (cases "split1 l p") simp_all
  obtain part where part: "py_index parts 1 = Inr part"
    using cs scan nb ct parts by (cases "py_index parts 1") simp_all
  obtain before after where sf: "split_first p l = Some (before, after)" and pa: "part = after"
    using parts part
    by (auto simp add: split1_def py_index_def split: if_splits option.splits)
  let ?c = "\<lparr> text_c = strip after,
             output_c = strip (join ''\<newline>'' (filter (\<lambda>x. \<not> is_blank x) lower_lines)) \<rparr>"
  have step: "get_commands_loop p (l # rev upper_lines) [] ?buf = get_commands_loop p (rev upper_lines) [?c] []"
    using nb ct parts part pa by (simp add: Let_def rev_filter)
  obtain r where r: "get_commands_loop p (rev upper_lines) [] [] = Inr r" and csr: "cs = ?c # r"
    using cs scan step get_commands_loop_prefix [of p "rev upper_lines" "[?c]" "[]"]
    by (cases "get_commands_loop p (rev upper_lines) [] []") simp_all
  show ?thesis
    using sf cs csr r res by simp
qed

theorem get_commands_excludes_last_prompt_witness:
  "splitlines ''P> echo hi\<newline>hi\<newline>P> wut\<newline>x'' = [''P> echo hi'', ''hi''] @ ''P> wut'' # [''x'']
   \<and> is_prompt_line ''P>'' ''P> wut''
   \<and> \<not> is_prompt_line ''P>'' ''x''
   \<and> get_commands ''P> echo hi\<newline>hi\<newline>P> wut\<newline>x'' ''P>'' = Inr [\<lparr>text_c = ''echo hi'', output_c = ''hi''\<rparr>]
   \<and> scan_commands ''P> echo hi\<newline>hi\<newline>P> wut\<newline>x'' ''P>'' =
       Inr [\<lparr>text_c = ''wut'', output_c = ''x''\<rparr>, \<lparr>text_c = ''echo hi'', output_c = ''hi''\<rparr>]"
proof -
  have a: "splitlines ''P> echo hi\<newline>hi\<newline>P> wut\<newline>x'' = [''P> echo hi'', ''hi''] @ ''P> wut'' # [''x'']"
    by code_simp
  have b: "is_prompt_line ''P>'' ''P> wut''"
    by code_simp
  have c: "\<forall>x \<in> set [''x'']. \<not> is_prompt_line ''P>'' x"
    by code_simp
  have d: "get_commands ''P> echo hi\<newline>hi\<newline>P> wut\<newline>x'' ''P>'' = Inr [\<lparr>text_c = ''echo hi'', output_c = ''hi''\<rparr>]"
    by code_simp
  have e: "split_first ''P>'' ''P> wut'' = Some ([], '' wut'')"
    by code_simp
  have f: "strip '' wut'' = ''wut''" "is_blank ''x'' = False" "strip ''x'' = ''x''"
    by code_simp+
  show ?thesis
    using get_commands_excludes_last_prompt [OF a b c d] a b c d e f
    by simp
qed

section \<open>Properties of the context assembly\<close>

lemma py_index_last_Nil: "py_index ([] :: 'a list) (- 1) = Inl IndexError"
  by (simp add: py_index_def)

lemma py_index_last_Cons: "xs \<noteq> [] \<Longrightarrow> \<exists>x. py_index xs (- 1) = Inr x"
  by (cases xs) (auto simp add: py_index_def Let_def)

text \<open>
  C7: in prompt mode, with a pane that is not empty and a segmentation that returns,
  \<open>get_terminal_context\<close> raises IndexError at \<open>commands[-1]\<close> when the commands left
  after the \<open>max_commands\<close> slice and the truncation are none, and returns a context
  string otherwise.
\<close>

theorem get_terminal_context_last_command:
  assumes "get_pane_output w = (Inr pane_output, w')"
    and "pane_output \<noteq> []"
    and "prompt shell = Some p"
    and "p \<noteq> []"
    and "get_commands pane_output p = Inr commands"
  shows "(truncate_commands tk (py_slice_to commands max_commands) max_tokens = [] \<longrightarrow>
            get_terminal_context tk w shell max_tokens max_commands = (Inl IndexError, w'))
         \<and> (truncate_commands tk (py_slice_to commands max_commands) max_tokens \<noteq> [] \<longrightarrow>
            (\<exists>context. get_terminal_context tk w shell max_tokens max_commands
                          = (Inr context, w')))"
proof (intro conjI impI)
  assume "truncate_commands tk (py_slice_to commands max_commands) max_tokens = []"
  then show "get_terminal_context tk w shell max_tokens max_commands = (Inl IndexError, w')"
    using assms by (simp add: get_terminal_context_def Let_def py_index_last_Nil)
next
  assume "truncate_commands tk (py_slice_to commands max_commands) max_tokens \<noteq> []"
  then obtain x where
    "py_index (rev (truncate_commands tk (py_slice_to commands max_commands) max_tokens)) (- 1)
       = Inr x"
    using py_index_last_Cons [of "rev (truncate_commands tk (py_slice_to commands max_commands) max_tokens)"]
    by auto
  then show "\<exists>context. get_terminal_context tk w shell max_tokens max_commands
                          = (Inr context, w')"
    using assms by (simp add: get_terminal_context_def Let_def)
qed

theorem get_terminal_context_last_command_witness:
  "get_pane_output (tmux_world ''P> wut'') = (Inr ''P> wut'', tmux_world ''P> wut'')
   \<and> ''P> wut'' \<noteq> []
   \<and> prompt \<lparr> path = Some ''/bin/zsh'', name = Some ''zsh'', prompt = Some ''P>'' \<rparr> = Some ''P>''
   \<and> ''P>'' \<noteq> []
   \<and> get_commands ''P> wut'' ''P>'' = Inr []
   \<and> truncate_commands byte_tokenizer (py_slice_to [] 3) 4096 = []
   \<and> get_terminal_context byte_tokenizer (tmux_world ''P> wut'')
        \<lparr> path = Some ''/bin/zsh'', name = Some ''zsh'', prompt = Some ''P>'' \<rparr> 4096 3
       = (Inl IndexError, tmux_world ''P> wut'')"
proof -
  have a: "get_pane_output (tmux_world ''P> wut'') = (Inr ''P> wut'', tmux_world ''P> wut'')"
    by (simp add: get_pane_output_def tmux_world_def getenv_true_def write_file_def
          read_file_def remove_file_def Let_def)
  have b: "''P> wut'' \<noteq> []"
    by simp
  have c: "prompt \<lparr> path = Some ''/bin/zsh'', name = Some ''zsh'', prompt = Some ''P>'' \<rparr>
             = Some ''P>''"
    by simp
  have d: "''P>'' \<noteq> []"
    by simp
  have e: "get_commands ''P> wut'' ''P>'' = Inr []"
    by code_simp
  have f: "truncate_commands byte_tokenizer (py_slice_to [] 3) 4096 = []"
    by (simp add: truncate_commands_def py_slice_to_def)
  show ?thesis
    using get_terminal_context_last_command [OF a b c d e, of byte_tokenizer 3 4096] a e f
    by simp
qed

end
